theory Spec2Isabelle
  imports Main
begin

section \<open>JavaScript values used by the session manager\<close>

text \<open>
  Strings are lists of \<^typ>\<open>char\<close> (code units below 256).  The three string methods the
  manager calls are written out: \<open>split\<close> on a one-character separator, \<open>trim\<close> and
  \<open>includes\<close>.  \<open>Boolean\<close> is the truthiness test that \<open>filter(Boolean)\<close> applies to a
  string: only the empty string is falsy, so a line of spaces is kept.
\<close>

fun split :: "char \<Rightarrow> string \<Rightarrow> string list" where
  "split sep [] = [[]]"
| "split sep (c # cs) =
     (if c = sep then [] # split sep cs
      else (case split sep cs of [] \<Rightarrow> [[c]] | w # ws \<Rightarrow> (c # w) # ws))"

definition isWhiteSpace :: "char \<Rightarrow> bool" where
  "isWhiteSpace c =
     (c = CHR 0x09 \<or> c = CHR 0x0A \<or> c = CHR 0x0B \<or> c = CHR 0x0C \<or> c = CHR 0x0D
      \<or> c = CHR 0x20 \<or> c = CHR 0xA0)"

definition trim :: "string \<Rightarrow> string" where
  "trim s = rev (dropWhile isWhiteSpace (rev (dropWhile isWhiteSpace s)))"

definition Boolean :: "string \<Rightarrow> bool" where
  "Boolean s = (s \<noteq> [])"

fun startsWith :: "string \<Rightarrow> string \<Rightarrow> bool" where
  "startsWith s [] = True"
| "startsWith [] (p # ps) = False"
| "startsWith (c # cs) (p # ps) = (c = p \<and> startsWith cs ps)"

fun includes' :: "string \<Rightarrow> string \<Rightarrow> bool" where
  "includes' [] sub = (sub = [])"
| "includes' (c # cs) sub = (startsWith (c # cs) sub \<or> includes' cs sub)"

text \<open>
  An array read \<open>xs[i]\<close> gives \<open>undefined\<close> (here \<open>None\<close>) past the end of the array.
\<close>

definition index :: "'a list \<Rightarrow> nat \<Rightarrow> 'a option" where
  "index xs i = (if i < length xs then Some (xs ! i) else None)"

text \<open>
  A JavaScript \<open>Map\<close> is an association list in insertion order: \<open>set\<close> on a key that
  is present replaces its value in place, on a new key it appends; \<open>delete\<close> removes the
  key's entry.
\<close>

definition Map_get :: "('k \<times> 'v) list \<Rightarrow> 'k \<Rightarrow> 'v option" where
  "Map_get m k = map_of m k"

definition Map_has :: "('k \<times> 'v) list \<Rightarrow> 'k \<Rightarrow> bool" where
  "Map_has m k = (Map_get m k \<noteq> None)"

fun Map_set :: "'k \<Rightarrow> 'v \<Rightarrow> ('k \<times> 'v) list \<Rightarrow> ('k \<times> 'v) list" where
  "Map_set k v [] = [(k, v)]"
| "Map_set k v (p # ps) = (if fst p = k then (k, v) # ps else p # Map_set k v ps)"

definition Map_delete :: "'k \<Rightarrow> ('k \<times> 'v) list \<Rightarrow> ('k \<times> 'v) list" where
  "Map_delete k m = filter (\<lambda>p. fst p \<noteq> k) m"

definition Map_size :: "('k \<times> 'v) list \<Rightarrow> nat" where
  "Map_size m = length m"

section \<open>The session store (storage.ts, class MemStorage)\<close>

text \<open>
  \<open>InsertWhatsappSession\<close> is what \<open>createSession\<close> receives, \<open>WhatsappSession\<close> the
  record it keeps.  Both types come from the shared schema; their fields are the ones
  \<open>createSession\<close> reads and writes.  A missing or \<open>null\<close> \<open>phoneId\<close> is \<open>None\<close>;
  timestamps are natural numbers; \<open>delay\<close> is a whole number of seconds.
\<close>

record InsertWhatsappSession =
  sessionId :: string
  phoneNumber :: string
  connectionType :: string
  phoneId :: "string option"
  targets :: string
  messagePath :: string
  messageText :: string
  delay :: int
  isActive :: bool

record WhatsappSession = InsertWhatsappSession +
  id' :: nat
  messageCount :: nat
  createdAt :: nat
  updatedAt :: nat

type_synonym sessionTable = "(string \<times> WhatsappSession) list"

text \<open>\<open>a || null\<close> on an optional string: the empty string is falsy too.\<close>

definition orNull :: "string option \<Rightarrow> string option" where
  "orNull a = (case a of None \<Rightarrow> None | Some s \<Rightarrow> if Boolean s then Some s else None)"

text \<open>
  \<open>createSession\<close> builds the record from the fields of its argument, except that
  \<open>isActive\<close> is always set to \<open>false\<close> and \<open>messageCount\<close> to 0.  \<open>now\<close> stands for
  \<open>new Date()\<close>.
\<close>

definition createSession ::
  "nat \<Rightarrow> InsertWhatsappSession \<Rightarrow> sessionTable \<Rightarrow> WhatsappSession \<times> sessionTable" where
  "createSession now sessionData sessions =
     (let session =
        \<lparr> sessionId = sessionId sessionData,
          phoneNumber = phoneNumber sessionData,
          connectionType = connectionType sessionData,
          phoneId = orNull (phoneId sessionData),
          targets = targets sessionData,
          messagePath = messagePath sessionData,
          messageText = messageText sessionData,
          delay = (if delay sessionData = 0 then 5 else delay sessionData),
          isActive = False,
          id' = Map_size sessions + 1,
          messageCount = 0,
          createdAt = now,
          updatedAt = now \<rparr>
      in (session, Map_set (sessionId session) session sessions))"

definition getSessionById :: "string \<Rightarrow> sessionTable \<Rightarrow> WhatsappSession option" where
  "getSessionById sid sessions = Map_get sessions sid"

definition updateSessionStatus ::
  "nat \<Rightarrow> string \<Rightarrow> bool \<Rightarrow> sessionTable \<Rightarrow> WhatsappSession option \<times> sessionTable" where
  "updateSessionStatus now sid active sessions =
     (case Map_get sessions sid of
        None \<Rightarrow> (None, sessions)
      | Some session \<Rightarrow>
          (let updatedSession = session\<lparr>isActive := active, updatedAt := now\<rparr>
           in (Some updatedSession, Map_set sid updatedSession sessions)))"

definition incrementMessageCount ::
  "nat \<Rightarrow> string \<Rightarrow> sessionTable \<Rightarrow> nat \<times> sessionTable" where
  "incrementMessageCount now sid sessions =
     (case Map_get sessions sid of
        None \<Rightarrow> (0, sessions)
      | Some session \<Rightarrow>
          (let newCount = messageCount session + 1;
               updatedSession = session\<lparr>messageCount := newCount, updatedAt := now\<rparr>
           in (newCount, Map_set sid updatedSession sessions)))"

section \<open>The session manager (class WhatsAppManager)\<close>

text \<open>
  A client is what \<open>createWhatsAppClient\<close> returns: outside production the simulated
  object, whose \<open>sendMessage\<close> and \<open>destroy\<close> always resolve, and in production a client
  of the messaging library, whose calls may reject.
\<close>

datatype client = SimulatedClient | RealClient

text \<open>
  Everything the manager cannot decide by itself is read from an environment: the clock,
  \<open>NODE_ENV\<close>, whether the credential file of a session can be opened and parsed,
  whether the library loads and the client initialises, the content of a message file
  (\<open>None\<close> when \<open>readFile\<close> rejects), and whether a call of a real client's
  \<open>sendMessage\<close> or \<open>destroy\<close> resolves.
\<close>

record env =
  now :: nat
  isProduction :: bool
  credsReadable :: "string \<Rightarrow> bool"
  initOk :: bool
  readFile :: "string \<Rightarrow> string option"
  sendOk :: bool
  destroyOk :: bool

text \<open>
  The calls the manager makes on its collaborators, and the errors it catches from them,
  are recorded in the order they happen.
\<close>

datatype event =
    ClientCreated string client
  | ClientCreateFailed string
  | SendMessage string string "string option"
  | SendError string
  | ClientDestroy string
  | DestroyError string

text \<open>The value type of \<open>activeSessions\<close>; \<open>interval\<close> is the handle \<open>setInterval\<close> returned.\<close>

record sessionData =
  client :: client
  interval :: "nat option"
  targets :: "string list"
  messages :: "string list"
  delay :: int
  messageIndex :: nat
  targetIndex :: nat

text \<open>
  The state of the process: the store's table, the manager's \<open>activeSessions\<close>, the
  intervals that are armed (handle, the session id its callback dispatches for, and the
  period in milliseconds), the next fresh handle, and the events so far.
\<close>

record system =
  sessions :: sessionTable
  activeSessions :: "(string \<times> sessionData) list"
  timers :: "(nat \<times> string \<times> int) list"
  nextTimer :: nat
  events :: "event list"

definition initial :: system where
  "initial = \<lparr> sessions = [], activeSessions = [], timers = [], nextTimer = 0, events = [] \<rparr>"

text \<open>
  Node arms an interval with the period it is given only when that lies between 1 and
  \<open>2^31 - 1\<close> milliseconds; any other period is replaced by 1 millisecond.
\<close>

definition timerPeriod :: "int \<Rightarrow> int" where
  "timerPeriod ms = (if ms < 1 \<or> ms > 2147483647 then 1 else ms)"

definition setInterval :: "string \<Rightarrow> int \<Rightarrow> system \<Rightarrow> nat \<times> system" where
  "setInterval sid ms st =
     (nextTimer st,
      st\<lparr>timers := Map_set (nextTimer st) (sid, timerPeriod ms) (timers st),
         nextTimer := nextTimer st + 1\<rparr>)"

definition clearInterval :: "nat \<Rightarrow> system \<Rightarrow> system" where
  "clearInterval h st = st\<lparr>timers := Map_delete h (timers st)\<rparr>"

text \<open>
  \<open>createWhatsAppClient\<close>: \<open>None\<close> is the error it throws.  With \<open>creds\<close> the credential
  file must open and parse; in production the library must load and the client
  initialise.  With \<open>phoneId\<close> and a non-empty phone id, production needs the same and
  development returns the simulated client at once.  Any other connection type throws.
\<close>

definition createWhatsAppClient :: "env \<Rightarrow> WhatsappSession \<Rightarrow> client option" where
  "createWhatsAppClient e session =
     (if connectionType session = ''creds'' then
        (if \<not> credsReadable e (sessionId session) then None
         else if isProduction e then (if initOk e then Some RealClient else None)
         else Some SimulatedClient)
      else if connectionType session = ''phoneId'' \<and> orNull (phoneId session) \<noteq> None then
        (if isProduction e then
           (if credsReadable e (sessionId session) \<and> initOk e then Some RealClient else None)
         else Some SimulatedClient)
      else None)"

definition clientSend :: "env \<Rightarrow> client \<Rightarrow> bool" where
  "clientSend e c = (case c of SimulatedClient \<Rightarrow> True | RealClient \<Rightarrow> sendOk e)"

definition clientDestroy :: "env \<Rightarrow> client \<Rightarrow> bool" where
  "clientDestroy e c = (case c of SimulatedClient \<Rightarrow> True | RealClient \<Rightarrow> destroyOk e)"

text \<open>
  \<open>stopSession\<close>: an unknown id returns \<open>false\<close>.  Otherwise the interval is cleared, the
  client destroyed (a rejection is caught and logged), the entry deleted, and the
  result is \<open>true\<close>.  The stored client is always an object, so the test
  \<open>if (sessionData.client)\<close> always passes.
\<close>

definition stopSession :: "env \<Rightarrow> string \<Rightarrow> system \<Rightarrow> bool \<times> system" where
  "stopSession e sid st =
     (case Map_get (activeSessions st) sid of
        None \<Rightarrow> (False, st)
      | Some sd \<Rightarrow>
          (let st1 = (case interval sd of None \<Rightarrow> st | Some h \<Rightarrow> clearInterval h st);
               st2 = st1\<lparr>events := events st1 @
                        (if clientDestroy e (client sd) then [ClientDestroy sid]
                         else [ClientDestroy sid, DestroyError sid])\<rparr>
           in (True, st2\<lparr>activeSessions := Map_delete sid (activeSessions st2)\<rparr>)))"

definition parseTargets :: "string \<Rightarrow> string list" where
  "parseTargets s = filter Boolean (map trim (split CHR '','' s))"

definition parseMessages :: "string \<Rightarrow> string list" where
  "parseMessages s = filter Boolean (split CHR 0x0A s)"

text \<open>
  The message list of a session: the lines of \<open>messageText\<close> when it is non-empty,
  otherwise the lines of the file at \<open>messagePath\<close>; \<open>None\<close> when that file cannot be
  read.
\<close>

definition resolveMessages :: "env \<Rightarrow> WhatsappSession \<Rightarrow> string list option" where
  "resolveMessages e session =
     (if Boolean (messageText session) then Some (parseMessages (messageText session))
      else map_option parseMessages (readFile e (messagePath session)))"

definition startSession :: "env \<Rightarrow> WhatsappSession \<Rightarrow> system \<Rightarrow> bool \<times> system" where
  "startSession e session st =
     (let st1 = (if Map_has (activeSessions st) (sessionId session)
                 then snd (stopSession e (sessionId session) st) else st);
          targets' = parseTargets (InsertWhatsappSession.targets session)
      in if length targets' = 0 then (False, st1)
         else (case resolveMessages e session of
                 None \<Rightarrow> (False, st1)
               | Some messages' \<Rightarrow>
                   if length messages' = 0 then (False, st1)
                   else (case createWhatsAppClient e session of
                           None \<Rightarrow>
                             (False, st1\<lparr>events := events st1 @
                                              [ClientCreateFailed (sessionId session)]\<rparr>)
                         | Some client' \<Rightarrow>
                             (let st2 = st1\<lparr>events := events st1 @
                                              [ClientCreated (sessionId session) client']\<rparr>;
                                  (interval', st3) =
                                     setInterval (sessionId session)
                                       (InsertWhatsappSession.delay session * 1000) st2
                              in (True,
                                  st3\<lparr>activeSessions :=
                                        Map_set (sessionId session)
                                          \<lparr> client = client',
                                            interval = Some interval',
                                            targets = targets',
                                            messages = messages',
                                            delay = InsertWhatsappSession.delay session,
                                            messageIndex = 0,
                                            targetIndex = 0 \<rparr>
                                          (activeSessions st3)\<rparr>)))))"

text \<open>
  \<open>sendNextMessage\<close> runs in two parts, separated by the wait for \<open>client.sendMessage\<close>.
  The first part looks the session up, reads the current target and message from the
  entry it found and calls \<open>sendMessage\<close>; it yields the entry it read, or nothing when
  there is no entry or when the target is \<open>undefined\<close> (the call of \<open>includes\<close> on it
  throws, which is caught).  The second part runs when the send has settled, and is
  taken here as far as the end of the function, across its wait for
  \<open>incrementMessageCount\<close> (the pieces on either side of that wait come further down): on
  success it increments the store's counter, computes the next cursors from the entry
  read in the first part and stores that entry, with the new cursors, under the session
  id; on failure it only logs.  The remainder \<open>%\<close> is taken by the length of a list that
  \<open>startSession\<close> stored, which is never empty; for an empty list JavaScript would
  give \<open>NaN\<close>, which the natural numbers here do not have.
\<close>

definition formatTarget :: "string \<Rightarrow> string" where
  "formatTarget target = (if includes' target ''@c.us'' then target else target @ ''@c.us'')"

definition sendNextMessage_begin :: "string \<Rightarrow> system \<Rightarrow> sessionData option \<times> system" where
  "sendNextMessage_begin sid st =
     (case Map_get (activeSessions st) sid of
        None \<Rightarrow> (None, st)
      | Some sd \<Rightarrow>
          (case index (targets sd) (targetIndex sd) of
             None \<Rightarrow> (None, st\<lparr>events := events st @ [SendError sid]\<rparr>)
           | Some target \<Rightarrow>
               (Some sd,
                st\<lparr>events := events st @
                      [SendMessage sid (formatTarget target)
                         (index (messages sd) (messageIndex sd))]\<rparr>)))"

definition sendNextMessage_finish :: "env \<Rightarrow> string \<Rightarrow> sessionData \<Rightarrow> system \<Rightarrow> system" where
  "sendNextMessage_finish e sid sd st =
     (if clientSend e (client sd) then
        (let st1 = st\<lparr>sessions := snd (incrementMessageCount (now e) sid (sessions st))\<rparr>;
             nextMessageIndex = (messageIndex sd + 1) mod length (messages sd);
             nextTargetIndex =
               (if nextMessageIndex = 0 then (targetIndex sd + 1) mod length (targets sd)
                else targetIndex sd)
         in st1\<lparr>activeSessions :=
                  Map_set sid
                    (sd\<lparr>messageIndex := nextMessageIndex, targetIndex := nextTargetIndex\<rparr>)
                    (activeSessions st1)\<rparr>)
      else st\<lparr>events := events st @ [SendError sid]\<rparr>)"

text \<open>A dispatch step that nothing interrupts: both parts, one after the other.\<close>

definition sendNextMessage :: "env \<Rightarrow> string \<Rightarrow> system \<Rightarrow> system" where
  "sendNextMessage e sid st =
     (case sendNextMessage_begin sid st of
        (None, st1) \<Rightarrow> st1
      | (Some sd, st1) \<Rightarrow> sendNextMessage_finish e sid sd st1)"

section \<open>The HTTP handlers that start and stop a session\<close>

text \<open>
  The body of a start request.  A field that the schema requires to be a non-empty
  string is a string here, and a missing or ill-typed one is the empty string, which the
  schema refuses just the same.  \<open>sessionSchema_safeParse\<close> is the schema's verdict.
\<close>

record startBody =
  body_phoneNumber :: string
  body_phoneId :: "string option"
  body_targets :: string
  body_messagePath :: string
  body_messageText :: "string option"
  body_delay :: "int option"
  body_connectionType :: string

definition sessionSchema_safeParse :: "startBody \<Rightarrow> bool" where
  "sessionSchema_safeParse body =
     (length (body_phoneNumber body) \<ge> 1
      \<and> length (body_targets body) \<ge> 1
      \<and> length (body_messagePath body) \<ge> 1
      \<and> (case body_delay body of None \<Rightarrow> True | Some d \<Rightarrow> d \<ge> 1)
      \<and> (body_connectionType body = ''creds'' \<or> body_connectionType body = ''phoneId''))"

text \<open>
  \<open>POST /api/whatsapp/session/start\<close>; the result is the HTTP status.  The session id is
  the fresh \<open>nanoid()\<close>, an argument here.
\<close>

definition route_session_start :: "env \<Rightarrow> string \<Rightarrow> startBody \<Rightarrow> system \<Rightarrow> nat \<times> system" where
  "route_session_start e sid body st =
     (if \<not> sessionSchema_safeParse body then (400, st)
      else
        (let (session, tbl) =
               createSession (now e)
                 \<lparr> sessionId = sid,
                   phoneNumber = body_phoneNumber body,
                   connectionType = body_connectionType body,
                   phoneId = body_phoneId body,
                   InsertWhatsappSession.targets = body_targets body,
                   messagePath = body_messagePath body,
                   messageText = (case body_messageText body of None \<Rightarrow> [] | Some t \<Rightarrow> t),
                   InsertWhatsappSession.delay =
                     (case body_delay body of None \<Rightarrow> 10 | Some d \<Rightarrow> d),
                   isActive = True \<rparr>
                 (sessions st);
             (success, st1) = startSession e session (st\<lparr>sessions := tbl\<rparr>)
         in if \<not> success
            then (500, st1\<lparr>sessions := snd (updateSessionStatus (now e) sid False (sessions st1))\<rparr>)
            else (200, st1)))"

text \<open>\<open>POST /api/whatsapp/session/stop\<close>; a missing session id is the empty string.\<close>

definition route_session_stop :: "env \<Rightarrow> string \<Rightarrow> system \<Rightarrow> nat \<times> system" where
  "route_session_stop e sid st =
     (if \<not> Boolean sid then (400, st)
      else (case getSessionById sid (sessions st) of
              None \<Rightarrow> (404, st)
            | Some session \<Rightarrow>
                (let (success, st1) = stopSession e sid st
                 in if \<not> success then (500, st1)
                    else (200, st1\<lparr>sessions :=
                                   snd (updateSessionStatus (now e) sid False (sessions st1))\<rparr>))))"

section \<open>The manager's functions between their waits\<close>

text \<open>
  The functions of the manager are asynchronous: each runs until it waits for a promise
  and goes on, in a later turn of the event loop, when the promise has settled.  Other
  calls and other continuations run in between.  The parts below are the pieces of
  \<open>stopSession\<close>, \<open>sendNextMessage\<close> and \<open>startSession\<close> from one wait to the next.

  \<open>stopSession\<close> waits once, for \<open>client.destroy()\<close>.  Before the wait it looks the entry
  up, clears the interval and calls \<open>destroy\<close>; after it, it logs a rejection, deletes the
  entry (whatever is stored under the id by then) and returns.
\<close>

definition stopSession_call :: "string \<Rightarrow> system \<Rightarrow> sessionData option \<times> system" where
  "stopSession_call sid st =
     (case Map_get (activeSessions st) sid of
        None \<Rightarrow> (None, st)
      | Some sd \<Rightarrow>
          (let st1 = (case interval sd of None \<Rightarrow> st | Some h \<Rightarrow> clearInterval h st)
           in (Some sd, st1\<lparr>events := events st1 @ [ClientDestroy sid]\<rparr>)))"

definition stopSession_settle :: "env \<Rightarrow> string \<Rightarrow> sessionData \<Rightarrow> system \<Rightarrow> system" where
  "stopSession_settle e sid sd st =
     (let st1 = (if clientDestroy e (client sd) then st
                 else st\<lparr>events := events st @ [DestroyError sid]\<rparr>)
      in st1\<lparr>activeSessions := Map_delete sid (activeSessions st1)\<rparr>)"

text \<open>
  \<open>sendNextMessage\<close> waits twice: for \<open>client.sendMessage\<close> and, when that resolved, for
  \<open>storage.incrementMessageCount\<close>, whose body has updated the store by the time it
  returns its promise.  \<open>sendNextMessage_begin\<close> above is the part before the first wait;
  \<open>sendNextMessage_settle\<close> is the part between the waits (its result tells whether the send
  resolved); \<open>sendNextMessage_write\<close> is the part after the second wait, which stores the
  entry read by the first part, with cursors advanced from the ones read then.
\<close>

definition sendNextMessage_settle :: "env \<Rightarrow> string \<Rightarrow> sessionData \<Rightarrow> system \<Rightarrow> bool \<times> system" where
  "sendNextMessage_settle e sid sd st =
     (if clientSend e (client sd)
      then (True, st\<lparr>sessions := snd (incrementMessageCount (now e) sid (sessions st))\<rparr>)
      else (False, st\<lparr>events := events st @ [SendError sid]\<rparr>))"

definition sendNextMessage_write :: "string \<Rightarrow> sessionData \<Rightarrow> system \<Rightarrow> system" where
  "sendNextMessage_write sid sd st =
     (let nextMessageIndex = (messageIndex sd + 1) mod length (messages sd);
          nextTargetIndex =
            (if nextMessageIndex = 0 then (targetIndex sd + 1) mod length (targets sd)
             else targetIndex sd)
      in st\<lparr>activeSessions :=
               Map_set sid
                 (sd\<lparr>messageIndex := nextMessageIndex, targetIndex := nextTargetIndex\<rparr>)
                 (activeSessions st)\<rparr>)"

text \<open>
  What a call is waiting for: a dispatch step for its send or for the counter; a
  \<open>stopSession\<close> for \<open>destroy\<close>; a \<open>startSession\<close> for the \<open>stopSession\<close> it called, for
  \<open>readFile\<close>, or for \<open>createWhatsAppClient\<close>.  Each carries the local variables of the call:
  the entry read, the session, the parsed targets and messages.
\<close>

datatype pending =
    Sending string sessionData
  | Counting string sessionData
  | Destroying string sessionData
  | Restarting WhatsappSession sessionData
  | Reading WhatsappSession "string list"
  | Creating WhatsappSession "string list" "string list"

text \<open>
  \<open>startSession\<close> after its \<open>stopSession\<close> (or from the call, when the id has no entry): it
  parses the targets and, when \<open>messageText\<close> is non-empty, the messages.  The result is
  what it waits for next; the empty list means that it has returned \<open>false\<close>.  It reads
  and writes nothing of the manager's state here, so this part is attached to the part
  before it.  \<open>startSession_file\<close> is the same for the part after \<open>readFile\<close>.
\<close>

definition startSession_prepare :: "WhatsappSession \<Rightarrow> pending list" where
  "startSession_prepare session =
     (let targets' = parseTargets (InsertWhatsappSession.targets session)
      in if length targets' = 0 then []
         else if Boolean (messageText session) then
           (let messages' = parseMessages (messageText session)
            in if length messages' = 0 then [] else [Creating session targets' messages'])
         else [Reading session targets'])"

definition startSession_file :: "env \<Rightarrow> WhatsappSession \<Rightarrow> string list \<Rightarrow> pending list" where
  "startSession_file e session targets' =
     (case readFile e (messagePath session) of
        None \<Rightarrow> []
      | Some messageContent \<Rightarrow>
          (let messages' = parseMessages messageContent
           in if length messages' = 0 then [] else [Creating session targets' messages']))"

text \<open>
  The last part of \<open>startSession\<close>, when \<open>createWhatsAppClient\<close> has settled: a rejection is
  caught (and \<open>false\<close> returned); otherwise the interval is armed and the entry stored.
  \<open>createWhatsAppClient\<close> waits several times itself, but touches nothing of the manager's
  state, so its waits count as one.
\<close>

definition startSession_commit ::
  "env \<Rightarrow> WhatsappSession \<Rightarrow> string list \<Rightarrow> string list \<Rightarrow> system \<Rightarrow> system" where
  "startSession_commit e session targets' messages' st =
     (case createWhatsAppClient e session of
        None \<Rightarrow> st\<lparr>events := events st @ [ClientCreateFailed (sessionId session)]\<rparr>
      | Some client' \<Rightarrow>
          (let st2 = st\<lparr>events := events st @ [ClientCreated (sessionId session) client']\<rparr>;
               (interval', st3) =
                  setInterval (sessionId session)
                    (InsertWhatsappSession.delay session * 1000) st2
           in st3\<lparr>activeSessions :=
                    Map_set (sessionId session)
                      \<lparr> client = client',
                        interval = Some interval',
                        targets = targets',
                        messages = messages',
                        delay = InsertWhatsappSession.delay session,
                        messageIndex = 0,
                        targetIndex = 0 \<rparr>
                      (activeSessions st3)\<rparr>))"

section \<open>The process\<close>

text \<open>
  The state of the process together with the calls that are waiting.  What happens to it:
  \<open>startSession\<close> or \<open>stopSession\<close> is called; an armed interval fires, which calls
  \<open>sendNextMessage\<close> for its session (a handle that is not armed does nothing); or the
  promise that the \<open>i\<close>-th waiting call waits for settles, in the given environment, and the
  call runs its next part.
\<close>

record process =
  sys :: system
  pendings :: "pending list"

datatype action = CallStart WhatsappSession | CallStop string | Fire nat | Settle env nat

text \<open>The list without its \<open>i\<close>-th element.\<close>

definition dropAt :: "nat \<Rightarrow> 'a list \<Rightarrow> 'a list" where
  "dropAt i xs = take i xs @ drop (Suc i) xs"

fun resume :: "env \<Rightarrow> pending \<Rightarrow> process \<Rightarrow> process" where
  "resume e (Sending sid sd) p =
     (let (sent, st) = sendNextMessage_settle e sid sd (sys p)
      in if sent then p\<lparr>sys := st, pendings := pendings p @ [Counting sid sd]\<rparr>
         else p\<lparr>sys := st\<rparr>)"
| "resume e (Counting sid sd) p = p\<lparr>sys := sendNextMessage_write sid sd (sys p)\<rparr>"
| "resume e (Destroying sid sd) p = p\<lparr>sys := stopSession_settle e sid sd (sys p)\<rparr>"
| "resume e (Restarting session sd) p =
     p\<lparr>sys := stopSession_settle e (sessionId session) sd (sys p),
       pendings := pendings p @ startSession_prepare session\<rparr>"
| "resume e (Reading session targets') p =
     p\<lparr>pendings := pendings p @ startSession_file e session targets'\<rparr>"
| "resume e (Creating session targets' messages') p =
     p\<lparr>sys := startSession_commit e session targets' messages' (sys p)\<rparr>"

fun act :: "action \<Rightarrow> process \<Rightarrow> process" where
  "act (CallStart session) p =
     (case stopSession_call (sessionId session) (sys p) of
        (Some sd, st) \<Rightarrow> p\<lparr>sys := st, pendings := pendings p @ [Restarting session sd]\<rparr>
      | (None, st) \<Rightarrow> p\<lparr>pendings := pendings p @ startSession_prepare session\<rparr>)"
| "act (CallStop sid) p =
     (case stopSession_call sid (sys p) of
        (Some sd, st) \<Rightarrow> p\<lparr>sys := st, pendings := pendings p @ [Destroying sid sd]\<rparr>
      | (None, st) \<Rightarrow> p)"
| "act (Fire h) p =
     (case Map_get (timers (sys p)) h of
        None \<Rightarrow> p
      | Some (sid, ms) \<Rightarrow>
          (case sendNextMessage_begin sid (sys p) of
             (Some sd, st) \<Rightarrow> p\<lparr>sys := st, pendings := pendings p @ [Sending sid sd]\<rparr>
           | (None, st) \<Rightarrow> p\<lparr>sys := st\<rparr>))"
| "act (Settle e i) p =
     (if i < length (pendings p)
      then resume e (pendings p ! i) (p\<lparr>pendings := dropAt i (pendings p)\<rparr>)
      else p)"

text \<open>A schedule is a list of such actions, taken in order.\<close>

definition schedule :: "action list \<Rightarrow> process \<Rightarrow> process" where
  "schedule acts p = fold act acts p"

text \<open>A process that has just started: no live session, no interval, any store content.\<close>

definition started :: "sessionTable \<Rightarrow> system" where
  "started tbl = initial\<lparr>sessions := tbl\<rparr>"

definition boot :: "sessionTable \<Rightarrow> process" where
  "boot tbl = \<lparr> sys = started tbl, pendings = [] \<rparr>"

text \<open>
  The session id a waiting call belongs to; whether it is a dispatch step; whether it is
  a \<open>startSession\<close>.
\<close>

fun pendingId :: "pending \<Rightarrow> string" where
  "pendingId (Sending sid sd) = sid"
| "pendingId (Counting sid sd) = sid"
| "pendingId (Destroying sid sd) = sid"
| "pendingId (Restarting session sd) = sessionId session"
| "pendingId (Reading session targets') = sessionId session"
| "pendingId (Creating session targets' messages') = sessionId session"


fun isStart :: "pending \<Rightarrow> bool" where
  "isStart (Sending sid sd) = False"
| "isStart (Counting sid sd) = False"
| "isStart (Destroying sid sd) = False"
| "isStart (Restarting session sd) = True"
| "isStart (Reading session targets') = True"
| "isStart (Creating session targets' messages') = True"






text \<open>The action is a call of \<open>startSession\<close> for session \<open>sid\<close>.\<close>

fun startsSession :: "string \<Rightarrow> action \<Rightarrow> bool" where
  "startsSession sid (CallStart session) = (sessionId session = sid)"
| "startsSession sid (CallStop sid') = False"
| "startsSession sid (Fire h) = False"
| "startsSession sid (Settle e i) = False"

section \<open>Notions for the properties\<close>

text \<open>The cursors of an entry point into its lists.\<close>

definition cursorsInRange :: "sessionData \<Rightarrow> bool" where
  "cursorsInRange sd =
     (messageIndex sd < length (messages sd) \<and> targetIndex sd < length (targets sd))"

text \<open>The armed intervals whose callback dispatches for session \<open>sid\<close>.\<close>

definition liveTimers :: "string \<Rightarrow> system \<Rightarrow> (nat \<times> string \<times> int) list" where
  "liveTimers sid st = filter (\<lambda>p. fst (snd p) = sid) (timers st)"




section \<open>Invariants of the process\<close>

text \<open>
  Cursors in range: every entry's cursors point into its lists, every waiting dispatch
  step read such an entry, and every waiting \<open>startSession\<close> carries non-empty lists.
\<close>

definition allInRange :: "system \<Rightarrow> bool" where
  "allInRange st = (\<forall>sid sd. Map_get (activeSessions st) sid = Some sd \<longrightarrow> cursorsInRange sd)"

fun taskInRange :: "pending \<Rightarrow> bool" where
  "taskInRange (Sending sid sd) = cursorsInRange sd"
| "taskInRange (Counting sid sd) = cursorsInRange sd"
| "taskInRange (Destroying sid sd) = True"
| "taskInRange (Restarting session sd) = True"
| "taskInRange (Reading session targets') = (targets' \<noteq> [])"
| "taskInRange (Creating session targets' messages') = (targets' \<noteq> [] \<and> messages' \<noteq> [])"

definition inRange :: "process \<Rightarrow> bool" where
  "inRange p = (allInRange (sys p) \<and> list_all taskInRange (pendings p))"

text \<open>
  The lists of session \<open>sid\<close> are \<open>ts\<close> and \<open>ms\<close>: in its entry, when it has one, and in the
  entry read by each waiting dispatch step of the session; and no \<open>startSession\<close> for the
  session is waiting.
\<close>

fun taskKeeps :: "string \<Rightarrow> string list \<Rightarrow> string list \<Rightarrow> pending \<Rightarrow> bool" where
  "taskKeeps sid ts ms (Sending sid' sd) = (sid' = sid \<longrightarrow> targets sd = ts \<and> messages sd = ms)"
| "taskKeeps sid ts ms (Counting sid' sd) = (sid' = sid \<longrightarrow> targets sd = ts \<and> messages sd = ms)"
| "taskKeeps sid ts ms (Destroying sid' sd) = True"
| "taskKeeps sid ts ms (Restarting session sd) = (sessionId session \<noteq> sid)"
| "taskKeeps sid ts ms (Reading session targets') = (sessionId session \<noteq> sid)"
| "taskKeeps sid ts ms (Creating session targets' messages') = (sessionId session \<noteq> sid)"

definition frozen :: "string \<Rightarrow> string list \<Rightarrow> string list \<Rightarrow> process \<Rightarrow> bool" where
  "frozen sid ts ms p =
     ((case Map_get (activeSessions (sys p)) sid of
         None \<Rightarrow> True
       | Some sd \<Rightarrow> targets sd = ts \<and> messages sd = ms)
      \<and> list_all (taskKeeps sid ts ms) (pendings p))"







section \<open>Concrete sessions and environments\<close>

definition devEnv :: env where
  "devEnv = \<lparr> now = 0, isProduction = False, credsReadable = (\<lambda>sid. False), initOk = False,
              readFile = (\<lambda>path. None), sendOk = True, destroyOk = True \<rparr>"

definition prodEnv :: env where
  "prodEnv = \<lparr> now = 0, isProduction = True, credsReadable = (\<lambda>sid. True), initOk = True,
               readFile = (\<lambda>path. None), sendOk = True, destroyOk = True \<rparr>"

definition demoBody :: startBody where
  "demoBody =
     \<lparr> body_phoneNumber = ''40700000000'',
       body_phoneId = Some ''p1'',
       body_targets = ''a,b'',
       body_messagePath = ''messages.txt'',
       body_messageText = Some (''hi'' @ [CHR 0x0A] @ ''bye''),
       body_delay = Some 1,
       body_connectionType = ''phoneId'' \<rparr>"

definition demoSession :: WhatsappSession where
  "demoSession =
     \<lparr> sessionId = ''s1'',
       phoneNumber = ''40700000000'',
       connectionType = ''phoneId'',
       phoneId = Some ''p1'',
       InsertWhatsappSession.targets = ''a,b'',
       messagePath = ''messages.txt'',
       messageText = ''hi'' @ [CHR 0x0A] @ ''bye'',
       InsertWhatsappSession.delay = 1,
       isActive = False,
       id' = 1,
       messageCount = 0,
       createdAt = 0,
       updatedAt = 0 \<rparr>"

text \<open>Production environments in which a send, or the client's teardown, rejects.\<close>

definition sendFails :: env where
  "sendFails = prodEnv\<lparr>sendOk := False\<rparr>"

definition destroyFails :: env where
  "destroyFails = prodEnv\<lparr>destroyOk := False\<rparr>"

text \<open>The demo session started, restarted and stopped, outside and in production.\<close>

definition devLive :: system where
  "devLive = snd (startSession devEnv demoSession initial)"


definition prodLive :: system where
  "prodLive = snd (startSession prodEnv demoSession initial)"








text \<open>The demo session with other targets and messages under the same id.\<close>

definition relisted :: WhatsappSession where
  "relisted = demoSession\<lparr>InsertWhatsappSession.targets := ''x'', messageText := ''m''\<rparr>"

text \<open>
  The demo session started in production and nothing waiting; then three dispatch steps
  one after the other, the second with a send that rejects.
\<close>

definition liveProcess :: process where
  "liveProcess = schedule [CallStart demoSession, Settle prodEnv 0] (boot [])"

definition courseActs :: "action list" where
  "courseActs =
     [Fire 0, Settle prodEnv 0, Settle prodEnv 0,
      Fire 0, Settle sendFails 0,
      Fire 0, Settle prodEnv 0, Settle prodEnv 0]"


text \<open>
  A dispatch step in flight across a restart: the interval fires and the step waits for
  its send; meanwhile \<open>startSession\<close> is called for the same id with other lists, stops the
  session and starts the new one.  In \<open>orphanActs\<close> the send then resolves and the step
  completes, the session is stopped, and started once more.
\<close>

definition staleActs :: "action list" where
  "staleActs =
     [CallStart demoSession, Settle prodEnv 0,
      Fire 0,
      CallStart relisted, Settle prodEnv 1, Settle prodEnv 1]"

definition orphanActs :: "action list" where
  "orphanActs =
     staleActs @
     [Settle prodEnv 0, Settle prodEnv 0,
      CallStop ''s1'', Settle prodEnv 0,
      CallStart demoSession, Settle prodEnv 0]"

section \<open>Facts about the Map model\<close>

lemma Map_get_set:
  "Map_get (Map_set k v m) k' = (if k' = k then Some v else Map_get m k')"
  by (induction m) (auto simp: Map_get_def)

lemma Map_get_delete:
  "Map_get (Map_delete k m) k' = (if k' = k then None else Map_get m k')"
  by (induction m) (auto simp: Map_get_def Map_delete_def)

lemma Map_get_delete_same: "Map_get (Map_delete k m) k = None"
  by (simp add: Map_get_delete)

section \<open>What each operation does to the state\<close>

lemma stopSession_absent:
  "Map_get (activeSessions st) sid = None \<Longrightarrow> stopSession e sid st = (False, st)"
  by (simp add: stopSession_def)

lemma stopSession_present:
  assumes "Map_get (activeSessions st) sid = Some sd"
  shows "fst (stopSession e sid st) = True"
    and "activeSessions (snd (stopSession e sid st)) = Map_delete sid (activeSessions st)"
    and "timers (snd (stopSession e sid st)) =
           (case interval sd of None \<Rightarrow> timers st | Some h \<Rightarrow> Map_delete h (timers st))"
    and "nextTimer (snd (stopSession e sid st)) = nextTimer st"
    and "sessions (snd (stopSession e sid st)) = sessions st"
    and "events (snd (stopSession e sid st)) =
           events st @ (if clientDestroy e (client sd) then [ClientDestroy sid]
                        else [ClientDestroy sid, DestroyError sid])"
  using assms
  by (simp_all add: stopSession_def Let_def clearInterval_def split: option.splits)



subsection \<open>A dispatch step\<close>




lemma sendNextMessage_timers:
  "timers (sendNextMessage e sid st) = timers st \<and> nextTimer (sendNextMessage e sid st) = nextTimer st"
  by (simp add: sendNextMessage_def sendNextMessage_begin_def sendNextMessage_finish_def Let_def
      split: option.splits)

lemma sendNextMessage_other:
  "sid' \<noteq> sid \<Longrightarrow>
     Map_get (activeSessions (sendNextMessage e sid' st)) sid = Map_get (activeSessions st) sid"
  by (simp add: sendNextMessage_def sendNextMessage_begin_def sendNextMessage_finish_def Let_def
      Map_get_set split: option.splits)


subsection \<open>Other sessions are left alone\<close>

lemma stopSession_other:
  "sid' \<noteq> sid \<Longrightarrow>
     Map_get (activeSessions (snd (stopSession e sid' st))) sid = Map_get (activeSessions st) sid"
  by (simp add: stopSession_def Let_def clearInterval_def Map_get_delete split: option.splits)


subsection \<open>Cursors stay in range\<close>

lemma advanced_inRange:
  assumes "cursorsInRange sd"
  shows "cursorsInRange
           (sd\<lparr>messageIndex := (messageIndex sd + 1) mod length (messages sd),
               targetIndex :=
                 (if (messageIndex sd + 1) mod length (messages sd) = 0
                  then (targetIndex sd + 1) mod length (targets sd)
                  else targetIndex sd)\<rparr>)"
proof -
  have M: "0 < length (messages sd)" and T: "0 < length (targets sd)"
    using assms by (auto simp add: cursorsInRange_def)
  have "(messageIndex sd + 1) mod length (messages sd) < length (messages sd)"
    using M by (rule mod_less_divisor)
  moreover have "(targetIndex sd + 1) mod length (targets sd) < length (targets sd)"
    using T by (rule mod_less_divisor)
  moreover have "targetIndex sd < length (targets sd)"
    using assms by (simp add: cursorsInRange_def)
  ultimately show ?thesis
    by (simp add: cursorsInRange_def)
qed

subsection \<open>Armed intervals belong to entries\<close>







subsection \<open>A start that is refused\<close>





subsection \<open>The demo session\<close>


lemma prodLive_started: "startSession prodEnv demoSession initial = (True, prodLive)"
proof -
  have "fst (startSession prodEnv demoSession initial)" by code_simp
  then show ?thesis by (simp add: prodLive_def prod_eq_iff)
qed

lemma devLive_started: "startSession devEnv demoSession initial = (True, devLive)"
proof -
  have "fst (startSession devEnv demoSession initial)" by code_simp
  then show ?thesis by (simp add: devLive_def prod_eq_iff)
qed

lemma prodLive_entry:
  "Map_get (activeSessions prodLive) ''s1'' =
     Some \<lparr> client = RealClient, interval = Some 0, targets = [''a'', ''b''],
            messages = [''hi'', ''bye''], delay = 1, messageIndex = 0, targetIndex = 0 \<rparr>"
  by code_simp


subsection \<open>The parts of the functions\<close>

lemma stopSession_segments:
  "stopSession e sid st =
     (case stopSession_call sid st of
        (None, st1) \<Rightarrow> (False, st1)
      | (Some sd, st1) \<Rightarrow> (True, stopSession_settle e sid sd st1))"
  by (auto simp add: stopSession_def stopSession_call_def stopSession_settle_def Let_def
      clearInterval_def split: option.splits)

lemma finish_segments:
  "sendNextMessage_finish e sid sd st =
     (let (sent, st1) = sendNextMessage_settle e sid sd st
      in if sent then sendNextMessage_write sid sd st1 else st1)"
  by (simp add: sendNextMessage_finish_def sendNextMessage_settle_def sendNextMessage_write_def
      Let_def)

lemma stopSession_call_None:
  "Map_get (activeSessions st) sid = None \<Longrightarrow> stopSession_call sid st = (None, st)"
  by (simp add: stopSession_call_def)

lemma stopSession_call_Some:
  assumes "Map_get (activeSessions st) sid = Some sd"
  shows "fst (stopSession_call sid st) = Some sd"
    and "activeSessions (snd (stopSession_call sid st)) = activeSessions st"
    and "timers (snd (stopSession_call sid st)) =
           (case interval sd of None \<Rightarrow> timers st | Some h \<Rightarrow> Map_delete h (timers st))"
    and "nextTimer (snd (stopSession_call sid st)) = nextTimer st"
    and "sessions (snd (stopSession_call sid st)) = sessions st"
  using assms
  by (simp_all add: stopSession_call_def Let_def clearInterval_def split: option.splits)

lemma stopSession_settle_fields:
  "activeSessions (stopSession_settle e sid sd st) = Map_delete sid (activeSessions st)"
  "timers (stopSession_settle e sid sd st) = timers st"
  "nextTimer (stopSession_settle e sid sd st) = nextTimer st"
  "sessions (stopSession_settle e sid sd st) = sessions st"
  by (simp_all add: stopSession_settle_def Let_def)

lemma begin_fields:
  "activeSessions (snd (sendNextMessage_begin sid st)) = activeSessions st"
  "timers (snd (sendNextMessage_begin sid st)) = timers st"
  "nextTimer (snd (sendNextMessage_begin sid st)) = nextTimer st"
  "sessions (snd (sendNextMessage_begin sid st)) = sessions st"
  by (simp_all add: sendNextMessage_begin_def split: option.splits)

lemma begin_snapshot:
  "fst (sendNextMessage_begin sid st) = Some sd \<Longrightarrow> Map_get (activeSessions st) sid = Some sd"
  by (auto simp add: sendNextMessage_begin_def split: option.splits)

lemma send_settle_fst: "fst (sendNextMessage_settle e sid sd st) = clientSend e (client sd)"
  by (simp add: sendNextMessage_settle_def)

lemma resume_Sending:
  "resume e (Sending sid sd) p =
     (if clientSend e (client sd)
      then p\<lparr>sys := snd (sendNextMessage_settle e sid sd (sys p)),
             pendings := pendings p @ [Counting sid sd]\<rparr>
      else p\<lparr>sys := snd (sendNextMessage_settle e sid sd (sys p))\<rparr>)"
  by (simp add: sendNextMessage_settle_def)

declare resume.simps(1) [simp del]

declare resume_Sending [simp]

lemma send_settle_fields:
  "activeSessions (snd (sendNextMessage_settle e sid sd st)) = activeSessions st"
  "timers (snd (sendNextMessage_settle e sid sd st)) = timers st"
  "nextTimer (snd (sendNextMessage_settle e sid sd st)) = nextTimer st"
  by (simp_all add: sendNextMessage_settle_def)

lemma write_fields:
  "activeSessions (sendNextMessage_write sid sd st) =
     Map_set sid
       (sd\<lparr>messageIndex := (messageIndex sd + 1) mod length (messages sd),
           targetIndex :=
             (if (messageIndex sd + 1) mod length (messages sd) = 0
              then (targetIndex sd + 1) mod length (targets sd)
              else targetIndex sd)\<rparr>)
       (activeSessions st)"
  "timers (sendNextMessage_write sid sd st) = timers st"
  "nextTimer (sendNextMessage_write sid sd st) = nextTimer st"
  "sessions (sendNextMessage_write sid sd st) = sessions st"
  "events (sendNextMessage_write sid sd st) = events st"
  by (simp_all add: sendNextMessage_write_def Let_def)

lemma commit_failed:
  "createWhatsAppClient e session = None \<Longrightarrow>
     startSession_commit e session ts ms st =
       st\<lparr>events := events st @ [ClientCreateFailed (sessionId session)]\<rparr>"
  by (simp add: startSession_commit_def)

lemma commit_fields:
  assumes "createWhatsAppClient e session = Some c"
  shows "activeSessions (startSession_commit e session ts ms st) =
           Map_set (sessionId session)
             \<lparr> client = c, interval = Some (nextTimer st), targets = ts, messages = ms,
               delay = InsertWhatsappSession.delay session, messageIndex = 0, targetIndex = 0 \<rparr>
             (activeSessions st)"
    and "timers (startSession_commit e session ts ms st) =
           Map_set (nextTimer st)
             (sessionId session, timerPeriod (InsertWhatsappSession.delay session * 1000))
             (timers st)"
    and "nextTimer (startSession_commit e session ts ms st) = nextTimer st + 1"
    and "sessions (startSession_commit e session ts ms st) = sessions st"
  using assms by (simp_all add: startSession_commit_def Let_def setInterval_def)

subsection \<open>Cursors stay in range under any schedule\<close>

lemma set_dropAt: "set (dropAt i xs) \<subseteq> set xs"
  by (auto simp add: dropAt_def dest: in_set_takeD in_set_dropD)

lemma list_all_dropAt: "list_all P xs \<Longrightarrow> list_all P (dropAt i xs)"
  using set_dropAt[of i xs] by (auto simp add: list_all_iff)

lemma prepare_inRange: "list_all taskInRange (startSession_prepare session)"
  by (simp add: startSession_prepare_def Let_def)

lemma file_inRange: "ts \<noteq> [] \<Longrightarrow> list_all taskInRange (startSession_file e session ts)"
  by (simp add: startSession_file_def Let_def split: option.splits)

lemma allInRange_same:
  "activeSessions st' = activeSessions st \<Longrightarrow> allInRange st \<Longrightarrow> allInRange st'"
  by (simp add: allInRange_def)

lemma allInRange_delete:
  "activeSessions st' = Map_delete sid (activeSessions st) \<Longrightarrow> allInRange st \<Longrightarrow> allInRange st'"
  by (auto simp add: allInRange_def Map_get_delete split: if_splits)

lemma allInRange_set:
  "activeSessions st' = Map_set sid sd (activeSessions st) \<Longrightarrow> cursorsInRange sd \<Longrightarrow>
     allInRange st \<Longrightarrow> allInRange st'"
  by (auto simp add: allInRange_def Map_get_set split: if_splits)

lemma allInRange_commit:
  assumes "allInRange st" and "ts \<noteq> []" and "ms \<noteq> []"
  shows "allInRange (startSession_commit e session ts ms st)"
proof (cases "createWhatsAppClient e session")
  case None
  then show ?thesis using assms(1) by (simp add: commit_failed allInRange_def)
next
  case (Some c)
  show ?thesis
    by (rule allInRange_set[OF commit_fields(1)[OF Some] _ assms(1)])
       (simp add: cursorsInRange_def assms)
qed

lemma inRange_resume:
  assumes "allInRange (sys p)" and "list_all taskInRange (pendings p)" and "taskInRange t"
  shows "inRange (resume e t p)"
proof (cases t)
  case (Sending sid sd)
  have "allInRange (snd (sendNextMessage_settle e sid sd (sys p)))"
    by (rule allInRange_same[OF send_settle_fields(1) assms(1)])
  then show ?thesis
    using assms(2,3) Sending by (simp add: resume_Sending inRange_def)
next
  case (Counting sid sd)
  have "cursorsInRange sd" using assms(3) Counting by simp
  from allInRange_set[OF write_fields(1) advanced_inRange[OF this] assms(1)]
  show ?thesis using assms(2) Counting by (simp add: inRange_def)
next
  case (Destroying sid sd)
  from allInRange_delete[OF stopSession_settle_fields(1) assms(1)]
  show ?thesis using assms(2) Destroying by (simp add: inRange_def)
next
  case (Restarting session sd)
  from allInRange_delete[OF stopSession_settle_fields(1) assms(1)]
  show ?thesis using assms(2) Restarting by (simp add: inRange_def prepare_inRange)
next
  case (Reading session ts)
  then show ?thesis using assms by (simp add: inRange_def file_inRange)
next
  case (Creating session ts ms)
  then show ?thesis using assms by (simp add: inRange_def allInRange_commit)
qed

lemma inRange_act:
  assumes "inRange p"
  shows "inRange (act a p)"
proof (cases a)
  case (CallStart session)
  show ?thesis
  proof (cases "Map_get (activeSessions (sys p)) (sessionId session)")
    case None
    then show ?thesis
      using assms CallStart by (simp add: stopSession_call_None inRange_def prepare_inRange)
  next
    case (Some sd)
    from stopSession_call_Some[OF Some]
    show ?thesis
      using assms CallStart
      by (cases "stopSession_call (sessionId session) (sys p)")
         (auto simp add: inRange_def allInRange_def)
  qed
next
  case (CallStop sid)
  show ?thesis
  proof (cases "Map_get (activeSessions (sys p)) sid")
    case None
    then show ?thesis using assms CallStop by (simp add: stopSession_call_None)
  next
    case (Some sd)
    from stopSession_call_Some[OF Some]
    show ?thesis
      using assms CallStop
      by (cases "stopSession_call sid (sys p)") (auto simp add: inRange_def allInRange_def)
  qed
next
  case (Fire h)
  show ?thesis
  proof (cases "Map_get (timers (sys p)) h")
    case None
    then show ?thesis using assms Fire by simp
  next
    case (Some sm)
    obtain sid ms where sm: "sm = (sid, ms)" by (cases sm)
    obtain r st where b: "sendNextMessage_begin sid (sys p) = (r, st)"
      by (cases "sendNextMessage_begin sid (sys p)")
    have st: "allInRange st"
      using allInRange_same[OF begin_fields(1)[of sid "sys p"]] assms b by (simp add: inRange_def)
    show ?thesis
    proof (cases r)
      case None
      then show ?thesis using assms Fire Some sm b st by (simp add: inRange_def)
    next
      case (Some sd)
      with b begin_snapshot[of sid "sys p" sd]
      have "Map_get (activeSessions (sys p)) sid = Some sd" by simp
      with assms have "cursorsInRange sd" by (simp add: inRange_def allInRange_def)
      then show ?thesis
        using assms Fire \<open>Map_get (timers (sys p)) h = Some sm\<close> sm b st Some
        by (simp add: inRange_def)
    qed
  qed
next
  case (Settle e i)
  show ?thesis
  proof (cases "i < length (pendings p)")
    case False
    then show ?thesis using assms Settle by simp
  next
    case True
    have t: "taskInRange (pendings p ! i)"
      using assms True by (simp add: inRange_def list_all_length)
    have rest: "list_all taskInRange (dropAt i (pendings p))"
      using assms by (simp add: inRange_def list_all_dropAt)
    have "inRange (resume e (pendings p ! i) (p\<lparr>pendings := dropAt i (pendings p)\<rparr>))"
      by (rule inRange_resume) (use assms rest t in \<open>simp_all add: inRange_def\<close>)
    then show ?thesis using Settle True by simp
  qed
qed

lemma inRange_schedule: "inRange p \<Longrightarrow> inRange (schedule acts p)"
  by (induction acts arbitrary: p) (simp_all add: schedule_def inRange_act)

lemma inRange_boot: "inRange (boot tbl)"
  by (simp add: inRange_def boot_def allInRange_def started_def initial_def Map_get_def)

subsection \<open>Lists stay as they are without a restart\<close>

lemma frozen_iff:
  "frozen sid ts ms p =
     ((\<forall>sd. Map_get (activeSessions (sys p)) sid = Some sd \<longrightarrow> targets sd = ts \<and> messages sd = ms)
      \<and> list_all (taskKeeps sid ts ms) (pendings p))"
  by (simp add: frozen_def split: option.splits)

lemma prepare_ids: "list_all (\<lambda>t. pendingId t = sessionId session \<and> isStart t) (startSession_prepare session)"
  by (simp add: startSession_prepare_def Let_def)

lemma file_ids:
  "list_all (\<lambda>t. pendingId t = sessionId session \<and> isStart t) (startSession_file e session ts)"
  by (simp add: startSession_file_def Let_def split: option.splits)

lemma start_task_keeps: "isStart t \<Longrightarrow> pendingId t \<noteq> sid \<Longrightarrow> taskKeeps sid ts ms t"
  by (cases t) simp_all

lemma prepare_keeps:
  "sessionId session \<noteq> sid \<Longrightarrow> list_all (taskKeeps sid ts ms) (startSession_prepare session)"
  using prepare_ids[of session] by (auto simp add: list_all_iff start_task_keeps)

lemma file_keeps:
  "sessionId session \<noteq> sid \<Longrightarrow> list_all (taskKeeps sid ts ms) (startSession_file e session ts')"
  using file_ids[of session e ts'] by (auto simp add: list_all_iff start_task_keeps)

lemma commit_other:
  "sessionId session \<noteq> sid \<Longrightarrow>
     Map_get (activeSessions (startSession_commit e session ts ms st)) sid
       = Map_get (activeSessions st) sid"
  by (cases "createWhatsAppClient e session")
     (simp_all add: commit_failed commit_fields(1) Map_get_set)

lemma frozen_resume:
  assumes e: "\<forall>sd. Map_get (activeSessions (sys p)) sid = Some sd \<longrightarrow> targets sd = ts \<and> messages sd = ms"
    and r: "list_all (taskKeeps sid ts ms) (pendings p)" and t: "taskKeeps sid ts ms t"
  shows "frozen sid ts ms (resume e' t p)"
proof (cases t)
  case (Sending sid' sd)
  then show ?thesis using e r t by (simp add: frozen_iff send_settle_fields)
next
  case (Counting sid' sd)
  then show ?thesis using e r t by (auto simp add: frozen_iff write_fields Map_get_set)
next
  case (Destroying sid' sd)
  then show ?thesis using e r by (auto simp add: frozen_iff stopSession_settle_fields Map_get_delete)
next
  case (Restarting session sd)
  then show ?thesis
    using e r t
    by (auto simp add: frozen_iff stopSession_settle_fields Map_get_delete prepare_keeps)
next
  case (Reading session ts')
  then show ?thesis using e r t by (simp add: frozen_iff file_keeps)
next
  case (Creating session ts' ms')
  then show ?thesis using e r t by (simp add: frozen_iff commit_other)
qed

lemma frozen_act:
  assumes "frozen sid ts ms p" and "\<not> startsSession sid a"
  shows "frozen sid ts ms (act a p)"
proof (cases a)
  case (CallStart session)
  then have other: "sessionId session \<noteq> sid" using assms(2) by simp
  show ?thesis
  proof (cases "Map_get (activeSessions (sys p)) (sessionId session)")
    case None
    then show ?thesis
      using assms(1) CallStart other by (simp add: stopSession_call_None frozen_iff prepare_keeps)
  next
    case (Some sd)
    from stopSession_call_Some[OF Some]
    show ?thesis
      using assms(1) CallStart other
      by (cases "stopSession_call (sessionId session) (sys p)") (auto simp add: frozen_iff)
  qed
next
  case (CallStop sid')
  show ?thesis
  proof (cases "Map_get (activeSessions (sys p)) sid'")
    case None
    then show ?thesis using assms(1) CallStop by (simp add: stopSession_call_None)
  next
    case (Some sd)
    from stopSession_call_Some[OF Some]
    show ?thesis
      using assms(1) CallStop
      by (cases "stopSession_call sid' (sys p)") (auto simp add: frozen_iff)
  qed
next
  case (Fire h)
  show ?thesis
  proof (cases "Map_get (timers (sys p)) h")
    case None
    then show ?thesis using assms(1) Fire by simp
  next
    case (Some sm)
    obtain sid' ms' where sm: "sm = (sid', ms')" by (cases sm)
    obtain r st where b: "sendNextMessage_begin sid' (sys p) = (r, st)"
      by (cases "sendNextMessage_begin sid' (sys p)")
    have st: "activeSessions st = activeSessions (sys p)"
      using begin_fields(1)[of sid' "sys p"] b by simp
    show ?thesis
    proof (cases r)
      case None
      then show ?thesis using assms(1) Fire Some sm b st by (simp add: frozen_iff)
    next
      case (Some sd)
      with b begin_snapshot[of sid' "sys p" sd]
      have "Map_get (activeSessions (sys p)) sid' = Some sd" by simp
      then show ?thesis
        using assms(1) Fire \<open>Map_get (timers (sys p)) h = Some sm\<close> sm b st Some
        by (auto simp add: frozen_iff)
    qed
  qed
next
  case (Settle e i)
  show ?thesis
  proof (cases "i < length (pendings p)")
    case False
    then show ?thesis using assms(1) Settle by simp
  next
    case True
    have t: "taskKeeps sid ts ms (pendings p ! i)"
      using assms(1) True by (simp add: frozen_iff list_all_length)
    have rest: "list_all (taskKeeps sid ts ms) (dropAt i (pendings p))"
      using assms(1) by (simp add: frozen_iff list_all_dropAt)
    have "frozen sid ts ms (resume e (pendings p ! i) (p\<lparr>pendings := dropAt i (pendings p)\<rparr>))"
      by (rule frozen_resume) (use assms(1) rest t in \<open>simp_all add: frozen_iff\<close>)
    then show ?thesis using Settle True by simp
  qed
qed

lemma frozen_schedule:
  "frozen sid ts ms p \<Longrightarrow> list_all (\<lambda>a. \<not> startsSession sid a) acts \<Longrightarrow>
     frozen sid ts ms (schedule acts p)"
  by (induction acts arbitrary: p) (simp_all add: schedule_def frozen_act)

subsection \<open>Intervals and entries under an orderly schedule\<close>

























subsection \<open>Cursors along a serial schedule\<close>







lemma filter_none: "list_all (\<lambda>t. \<not> P t) Y \<Longrightarrow> filter P Y = []"
  by (simp add: list_all_iff filter_empty_conv)






subsection \<open>Facts for the properties\<close>



subsection \<open>Uninterrupted calls\<close>

text \<open>
  \<open>stopSession\<close>, \<open>sendNextMessage\<close> and \<open>startSession\<close> as given for a call that nothing
  interrupts are the schedules in which a call is followed at once by the ends of its
  waits, from a state in which nothing else is waiting.
\<close>

lemma stop_uninterrupted:
  "sys (schedule [CallStop sid, Settle e 0] \<lparr> sys = st, pendings = [] \<rparr>)
     = snd (stopSession e sid st)"
proof (cases "Map_get (activeSessions st) sid")
  case None
  then show ?thesis
    by (simp add: schedule_def stopSession_call_None stopSession_absent)
next
  case (Some sd)
  obtain st1 where c: "stopSession_call sid st = (Some sd, st1)"
    using stopSession_call_Some(1)[OF Some] by (cases "stopSession_call sid st") simp
  show ?thesis
    by (simp add: schedule_def c stopSession_segments dropAt_def)
qed

lemma step_uninterrupted:
  assumes "Map_get (timers st) h = Some (sid, ms)"
  shows "sys (schedule [Fire h, Settle e 0, Settle e 0] \<lparr> sys = st, pendings = [] \<rparr>)
           = sendNextMessage e sid st"
proof -
  obtain r st1 where b: "sendNextMessage_begin sid st = (r, st1)"
    by (cases "sendNextMessage_begin sid st")
  show ?thesis
  proof (cases r)
    case None
    then show ?thesis using assms b by (simp add: schedule_def sendNextMessage_def)
  next
    case (Some sd)
    then show ?thesis
      using assms b
      by (simp add: schedule_def sendNextMessage_def finish_segments dropAt_def
          sendNextMessage_settle_def)
  qed
qed

lemma start_after_stop:
  "sys (schedule [Settle e 0, Settle e 0]
          \<lparr> sys = st, pendings = startSession_prepare session \<rparr>)
     = snd (startSession e session st)"
  if "Map_get (activeSessions st) (sessionId session) = None"
  using that
  by (auto simp add: schedule_def startSession_def startSession_prepare_def startSession_file_def
      startSession_commit_def Let_def Map_has_def dropAt_def resolveMessages_def setInterval_def
      split: option.splits)

lemma start_uninterrupted:
  "sys (schedule [CallStart session, Settle e 0, Settle e 0, Settle e 0]
          \<lparr> sys = st, pendings = [] \<rparr>)
     = snd (startSession e session st)"
proof (cases "Map_get (activeSessions st) (sessionId session)")
  case None
  have "sys (schedule [CallStart session, Settle e 0, Settle e 0, Settle e 0]
          \<lparr> sys = st, pendings = [] \<rparr>)
        = sys (act (Settle e 0) (schedule [Settle e 0, Settle e 0]
          \<lparr> sys = st, pendings = startSession_prepare session \<rparr>))"
    using None by (simp add: schedule_def stopSession_call_None)
  also have "\<dots> = sys (schedule [Settle e 0, Settle e 0]
          \<lparr> sys = st, pendings = startSession_prepare session \<rparr>)"
    using None
    by (auto simp add: schedule_def startSession_prepare_def startSession_file_def Let_def
        dropAt_def split: option.splits)
  finally show ?thesis using start_after_stop[OF None] by simp
next
  case (Some sd)
  obtain st1 where c: "stopSession_call (sessionId session) st = (Some sd, st1)"
    using stopSession_call_Some(1)[OF Some]
    by (cases "stopSession_call (sessionId session) st") simp
  let ?st2 = "stopSession_settle e (sessionId session) sd st1"
  have stop: "stopSession e (sessionId session) st = (True, ?st2)"
    by (simp add: stopSession_segments c)
  have gone: "Map_get (activeSessions ?st2) (sessionId session) = None"
    by (simp add: stopSession_settle_fields Map_get_delete)
  have "sys (schedule [CallStart session, Settle e 0, Settle e 0, Settle e 0]
          \<lparr> sys = st, pendings = [] \<rparr>)
        = sys (schedule [Settle e 0, Settle e 0]
          \<lparr> sys = ?st2, pendings = startSession_prepare session \<rparr>)"
    by (simp add: schedule_def c dropAt_def)
  also have "\<dots> = snd (startSession e session ?st2)" by (rule start_after_stop[OF gone])
  also have "\<dots> = snd (startSession e session st)"
    using Some gone stop by (simp add: startSession_def Map_has_def)
  finally show ?thesis .
qed

section \<open>The order of dispatch\<close>




section \<open>A failed send\<close>




section \<open>Dispatch after a stop\<close>




section \<open>The stored activity flag\<close>

text \<open>
  C4.  The start handler at a valid request outside production: it answers 200 and one
  interval is armed for the new session, yet the stored record has \<open>isActive = false\<close>.
  \<open>createSession\<close> writes \<open>false\<close> whatever it is given, and the handler calls
  \<open>updateSessionStatus\<close> only when the start fails.
\<close>

theorem start_route_leaves_isActive_false:
  "fst (route_session_start devEnv ''s1'' demoBody initial) = 200
   \<and> map_option isActive
        (Map_get (sessions (snd (route_session_start devEnv ''s1'' demoBody initial))) ''s1'')
       = Some False
   \<and> liveTimers ''s1'' (snd (route_session_start devEnv ''s1'' demoBody initial))
       = [(0, ''s1'', 1000)]"
  by code_simp

section \<open>Starting with nothing to send\<close>




section \<open>One interval per session\<close>




section \<open>Cursors and lists of a live session\<close>

text \<open>
  C7.  After any schedule from a process that has just started, whatever the order of
  calls, firings and ends of waits: the cursors of every entry of the live-session table
  point into its lists; so do those of every entry that a waiting dispatch step has read;
  and every waiting \<open>startSession\<close> carries non-empty lists.  The lists of a session stay as
  they are while \<open>startSession\<close> is not called for its id: if the entry of the id, when it
  has one, and the entries read by its waiting dispatch steps have the lists \<open>ts\<close> and
  \<open>ms\<close>, and no \<open>startSession\<close> for the id is waiting, then after any schedule without a
  call of \<open>startSession\<close> for the id, its entry, when it has one, has the lists \<open>ts\<close> and \<open>ms\<close>.
\<close>

theorem cursors_stay_in_range:
  "(\<forall>sid sd. Map_get (activeSessions (sys (schedule acts (boot tbl)))) sid = Some sd \<longrightarrow>
       cursorsInRange sd)
   \<and> list_all taskInRange (pendings (schedule acts (boot tbl)))
   \<and> (frozen sid ts ms p \<and> list_all (\<lambda>a. \<not> startsSession sid a) acts' \<longrightarrow>
        (\<forall>sd. Map_get (activeSessions (sys (schedule acts' p))) sid = Some sd \<longrightarrow>
           targets sd = ts \<and> messages sd = ms))"
proof -
  have "inRange (schedule acts (boot tbl))" by (rule inRange_schedule[OF inRange_boot])
  moreover have "\<forall>sd. Map_get (activeSessions (sys (schedule acts' p))) sid = Some sd \<longrightarrow>
           targets sd = ts \<and> messages sd = ms"
    if "frozen sid ts ms p" "list_all (\<lambda>a. \<not> startsSession sid a) acts'"
    using frozen_schedule[OF that] by (simp add: frozen_iff)
  ultimately show ?thesis by (simp add: inRange_def allInRange_def)
qed

theorem cursors_stay_in_range_witness:
  "Map_get (activeSessions (sys (schedule orphanActs (boot [])))) ''s1'' =
     Some \<lparr> client = RealClient, interval = Some 2, targets = [''a'', ''b''],
            messages = [''hi'', ''bye''], delay = 1, messageIndex = 0, targetIndex = 0 \<rparr>
   \<and> cursorsInRange
        \<lparr> client = RealClient, interval = Some 2, targets = [''a'', ''b''],
          messages = [''hi'', ''bye''], delay = 1, messageIndex = 0, targetIndex = 0 \<rparr>
   \<and> frozen ''s1'' [''a'', ''b''] [''hi'', ''bye''] liveProcess
   \<and> list_all (\<lambda>a. \<not> startsSession ''s1'' a) (courseActs @ [Fire 0, Fire 0, Settle prodEnv 1])
   \<and> map_option targets
        (Map_get (activeSessions
           (sys (schedule (courseActs @ [Fire 0, Fire 0, Settle prodEnv 1]) liveProcess))) ''s1'')
       = Some [''a'', ''b'']
   \<and> map_option messages
        (Map_get (activeSessions
           (sys (schedule (courseActs @ [Fire 0, Fire 0, Settle prodEnv 1]) liveProcess))) ''s1'')
       = Some [''hi'', ''bye'']"
proof -
  let ?acts = "courseActs @ [Fire 0, Fire 0, Settle prodEnv 1]"
  have e: "Map_get (activeSessions (sys (schedule orphanActs (boot [])))) ''s1'' =
     Some \<lparr> client = RealClient, interval = Some 2, targets = [''a'', ''b''],
            messages = [''hi'', ''bye''], delay = 1, messageIndex = 0, targetIndex = 0 \<rparr>"
    by code_simp
  have fr: "frozen ''s1'' [''a'', ''b''] [''hi'', ''bye''] liveProcess" by code_simp
  have ns: "list_all (\<lambda>a. \<not> startsSession ''s1'' a) ?acts" by code_simp
  have ex: "Map_get (activeSessions (sys (schedule ?acts liveProcess))) ''s1'' \<noteq> None"
    by code_simp
  note inst = cursors_stay_in_range[of orphanActs "[]" "''s1''" "[''a'', ''b'']" "[''hi'', ''bye'']"
      liveProcess ?acts]
  have r: "cursorsInRange
        \<lparr> client = RealClient, interval = Some 2, targets = [''a'', ''b''],
          messages = [''hi'', ''bye''], delay = 1, messageIndex = 0, targetIndex = 0 \<rparr>"
    using conjunct1[OF inst] e by blast
  have l: "\<forall>sd. Map_get (activeSessions (sys (schedule ?acts liveProcess))) ''s1'' = Some sd \<longrightarrow>
           targets sd = [''a'', ''b''] \<and> messages sd = [''hi'', ''bye'']"
    using conjunct2[OF conjunct2[OF inst]] fr ns by blast
  from ex l have "map_option targets (Map_get (activeSessions (sys (schedule ?acts liveProcess))) ''s1'')
       = Some [''a'', ''b'']
     \<and> map_option messages (Map_get (activeSessions (sys (schedule ?acts liveProcess))) ''s1'')
       = Some [''hi'', ''bye'']"
    by auto
  with e r fr ns show ?thesis by simp
qed

text \<open>
  With a restart the lists of a running session change under it.  A dispatch step waits
  for its send while \<open>startSession\<close> is called for the same id with other lists; the
  restarted session has the lists \<open>[x]\<close> and \<open>[m]\<close>.  When the send has resolved, the step
  stores the entry it read: the session, whose interval is the one the restart armed,
  has the lists \<open>[a, b]\<close> and \<open>[hi, bye]\<close> again.
\<close>

theorem stale_lists_counterexample:
  "map_option targets (Map_get (activeSessions (sys (schedule staleActs (boot [])))) ''s1'')
     = Some [''x'']
   \<and> map_option messages (Map_get (activeSessions (sys (schedule staleActs (boot [])))) ''s1'')
     = Some [''m'']
   \<and> liveTimers ''s1'' (sys (schedule staleActs (boot []))) = [(1, ''s1'', 1000)]
   \<and> map_option targets
        (Map_get (activeSessions
           (sys (schedule (staleActs @ [Settle prodEnv 0, Settle prodEnv 0]) (boot [])))) ''s1'')
     = Some [''a'', ''b'']
   \<and> map_option messages
        (Map_get (activeSessions
           (sys (schedule (staleActs @ [Settle prodEnv 0, Settle prodEnv 0]) (boot [])))) ''s1'')
     = Some [''hi'', ''bye'']
   \<and> liveTimers ''s1''
        (sys (schedule (staleActs @ [Settle prodEnv 0, Settle prodEnv 0]) (boot [])))
     = [(1, ''s1'', 1000)]"
  by code_simp

section \<open>Stopping a session\<close>

text \<open>
  C8.  For a session id with no entry in \<open>activeSessions\<close>, \<open>stopSession\<close> returns
  \<open>false\<close> and the state it leaves is the state it found: no entry of the live-session
  table is added, removed or changed (nor is anything else).
\<close>

theorem stop_unknown_id:
  "Map_get (activeSessions st) sid = None \<Longrightarrow> stopSession e sid st = (False, st)"
  by (rule stopSession_absent)

theorem stop_unknown_id_witness:
  "Map_get (activeSessions initial) ''nobody'' = None
   \<and> stopSession devEnv ''nobody'' initial = (False, initial)"
proof -
  have absent: "Map_get (activeSessions initial) ''nobody'' = None"
    by (simp add: initial_def Map_get_def)
  show ?thesis
    using absent stop_unknown_id [OF absent, of devEnv] by simp
qed

text \<open>
  C9.  For a session id with an entry, \<open>stopSession\<close> returns \<open>true\<close> and the entry is
  gone afterwards, whatever the environment, so also when the client's \<open>destroy\<close>
  rejects; the other entries stay as they were.  A rejected \<open>destroy\<close> only leaves the
  logged error behind: it is not passed on to the caller.
\<close>

theorem stop_succeeds_despite_teardown_failure:
  assumes "Map_get (activeSessions st) sid = Some sd"
  shows "fst (stopSession e sid st) = True
     \<and> Map_get (activeSessions (snd (stopSession e sid st))) sid = None
     \<and> (\<forall>sid'. sid' \<noteq> sid \<longrightarrow>
           Map_get (activeSessions (snd (stopSession e sid st))) sid'
             = Map_get (activeSessions st) sid')
     \<and> (\<not> clientDestroy e (client sd) \<longrightarrow>
           events (snd (stopSession e sid st))
             = events st @ [ClientDestroy sid, DestroyError sid])"
  using stopSession_present[OF assms, of e]
  by (simp add: Map_get_delete)

theorem stop_succeeds_despite_teardown_failure_witness:
  "Map_get (activeSessions prodLive) ''s1'' =
     Some \<lparr> client = RealClient, interval = Some 0, targets = [''a'', ''b''],
            messages = [''hi'', ''bye''], delay = 1, messageIndex = 0, targetIndex = 0 \<rparr>
   \<and> \<not> clientDestroy destroyFails RealClient
   \<and> fst (stopSession destroyFails ''s1'' prodLive) = True
   \<and> Map_get (activeSessions (snd (stopSession destroyFails ''s1'' prodLive))) ''s1'' = None
   \<and> events (snd (stopSession destroyFails ''s1'' prodLive))
       = events prodLive @ [ClientDestroy ''s1'', DestroyError ''s1'']"
proof -
  have nd: "\<not> clientDestroy destroyFails RealClient"
    by (simp add: clientDestroy_def destroyFails_def prodEnv_def)
  show ?thesis
    using stop_succeeds_despite_teardown_failure[OF prodLive_entry, of destroyFails] nd
    by (simp add: prodLive_entry)
qed

section \<open>The store's counter\<close>

text \<open>
  C10.  For a session id that the store does not hold, \<open>incrementMessageCount\<close> returns 0
  and gives back the very same table (no record created, no counter or \<open>updatedAt\<close>
  touched).  For an id it holds, it returns the old count plus one, and that is the
  count the stored record then has.
\<close>

theorem incrementMessageCount_absent_or_present:
  "(Map_get tbl sid = None \<longrightarrow> incrementMessageCount t sid tbl = (0, tbl))
   \<and> (\<forall>session. Map_get tbl sid = Some session \<longrightarrow>
        fst (incrementMessageCount t sid tbl) = messageCount session + 1
        \<and> map_option messageCount (Map_get (snd (incrementMessageCount t sid tbl)) sid)
          = Some (messageCount session + 1))"
  by (simp add: incrementMessageCount_def Let_def Map_get_set)

theorem incrementMessageCount_witness:
  "Map_get [(''s1'', demoSession)] ''zz'' = None
   \<and> incrementMessageCount 5 ''zz'' [(''s1'', demoSession)] = (0, [(''s1'', demoSession)])
   \<and> Map_get [(''s1'', demoSession)] ''s1'' = Some demoSession
   \<and> fst (incrementMessageCount 5 ''s1'' [(''s1'', demoSession)]) = 1
   \<and> map_option messageCount
        (Map_get (snd (incrementMessageCount 5 ''s1'' [(''s1'', demoSession)])) ''s1'') = Some 1"
proof -
  have a: "Map_get [(''s1'', demoSession)] ''zz'' = None" by (simp add: Map_get_def)
  have b: "Map_get [(''s1'', demoSession)] ''s1'' = Some demoSession" by (simp add: Map_get_def)
  have c: "messageCount demoSession = 0" by (simp add: demoSession_def)
  show ?thesis
    using incrementMessageCount_absent_or_present[of "[(''s1'', demoSession)]" "''zz''" 5]
      incrementMessageCount_absent_or_present[of "[(''s1'', demoSession)]" "''s1''" 5] a b c
    by simp
qed

end
